theory Spec2Isabelle
  imports Main "HOL-Library.AList" "HOL-Library.Word"
begin

section \<open>Python values used by ftp-fuse-mount.py\<close>

text \<open>
  A Python \<open>str\<close> is modelled as a \<open>string\<close>, one \<open>char\<close> per code point, so
  the model covers the code points 0..255. A Python \<open>bytes\<close> object is a list of
  8-bit words. Python integers are unbounded: \<open>int\<close>.
\<close>

type_synonym bytes = "8 word list"

text \<open>
  The exceptions the program meets. \<open>error_perm msg\<close> is \<open>ftplib.error_perm\<close>
  with \<open>str(e) = msg\<close>; \<open>FuseOSError\<close> is fusepy's subclass of \<open>OSError\<close>;
  \<open>OtherError\<close> stands for every other subclass of \<open>Exception\<close> (a socket
  error, \<open>ftplib.error_temp\<close>, \<open>EOFError\<close>, ...).
\<close>

datatype errno = ENOENT | EACCES | EIO | ECONNREFUSED

datatype exc =
    error_perm string
  | FuseOSError errno
  | AttributeError
  | ValueError
  | IndexError
  | OtherError string

text \<open>\<open>str.isspace\<close> of one code point below 256.\<close>

definition isspace :: "char \<Rightarrow> bool" where
  "isspace c =
     (let n = (of_char c :: nat)
      in (9 \<le> n \<and> n \<le> 13) \<or> (28 \<le> n \<and> n \<le> 32) \<or> n = 133 \<or> n = 160)"

text \<open>
  \<open>str.isdigit\<close> of one code point below 256: the decimal digits and the
  superscripts two, three and one (U+00B2, U+00B3, U+00B9).
\<close>

definition isdigit_char :: "char \<Rightarrow> bool" where
  "isdigit_char c =
     (let n = (of_char c :: nat)
      in (48 \<le> n \<and> n \<le> 57) \<or> n = 178 \<or> n = 179 \<or> n = 185)"

definition isdigit :: "string \<Rightarrow> bool" where
  "isdigit s = (s \<noteq> [] \<and> list_all isdigit_char s)"

text \<open>The characters \<open>int()\<close> reads as decimal digits (category Nd below 256).\<close>

definition isdecimal_char :: "char \<Rightarrow> bool" where
  "isdecimal_char c = (let n = (of_char c :: nat) in 48 \<le> n \<and> n \<le> 57)"

definition digit_val :: "char \<Rightarrow> int" where
  "digit_val c = int (of_char c) - 48"

definition decimal_val :: "string \<Rightarrow> int" where
  "decimal_val s = foldl (\<lambda>acc c. 10 * acc + digit_val c) 0 s"

text \<open>
  Groups of digits separated by single underscores, as \<open>int()\<close> accepts them:
  the digits with the underscores removed, or \<open>None\<close> where an underscore leads,
  trails or is doubled, or a character is no decimal digit.
\<close>

fun digit_groups :: "string \<Rightarrow> string option" where
  "digit_groups [] = None"
| "digit_groups [c] = (if isdecimal_char c then Some [c] else None)"
| "digit_groups (c # d # s) =
     (if \<not> isdecimal_char c then None
      else if d = CHR ''_'' then map_option ((#) c) (digit_groups s)
      else map_option ((#) c) (digit_groups (d # s)))"

text \<open>
  \<open>int(s)\<close> for a string without surrounding whitespace: an optional sign, then
  digit groups; \<open>ValueError\<close> otherwise. (The limit on the number of digits that
  recent interpreters impose is not modelled.)
\<close>

definition py_int :: "string \<Rightarrow> exc + int" where
  "py_int s =
     (case s of
        [] \<Rightarrow> Inl ValueError
      | c # r \<Rightarrow>
          if c = CHR ''-'' then
            (case digit_groups r of None \<Rightarrow> Inl ValueError | Some ds \<Rightarrow> Inr (- decimal_val ds))
          else if c = CHR ''+'' then
            (case digit_groups r of None \<Rightarrow> Inl ValueError | Some ds \<Rightarrow> Inr (decimal_val ds))
          else
            (case digit_groups s of None \<Rightarrow> Inl ValueError | Some ds \<Rightarrow> Inr (decimal_val ds)))"

text \<open>\<open>s.strip()\<close>: whitespace removed at both ends.\<close>

definition py_strip :: "string \<Rightarrow> string" where
  "py_strip s = rev (dropWhile isspace (rev (dropWhile isspace s)))"

text \<open>
  \<open>s.split(None, maxsplit)\<close>: at most \<open>maxsplit\<close> splits at runs of whitespace;
  once they are used up, the rest of the string, without its leading whitespace
  but with its trailing whitespace, is the last part.
\<close>

fun py_split :: "nat \<Rightarrow> string \<Rightarrow> string list" where
  "py_split 0 s =
     (let r = dropWhile isspace s in if r = [] then [] else [r])"
| "py_split (Suc n) s =
     (let r = dropWhile isspace s
      in if r = [] then []
         else takeWhile (\<lambda>c. \<not> isspace c) r # py_split n (dropWhile (\<lambda>c. \<not> isspace c) r))"

text \<open>\<open>s.split()\<close>: no limit on the number of splits.\<close>

definition py_split_all :: "string \<Rightarrow> string list" where
  "py_split_all s = py_split (length s) s"

text \<open>\<open>s.startswith(p)\<close> and \<open>sub in s\<close>.\<close>

fun startswith :: "string \<Rightarrow> string \<Rightarrow> bool" where
  "startswith s [] = True"
| "startswith [] (p # ps) = False"
| "startswith (c # cs) (p # ps) = (c = p \<and> startswith cs ps)"

fun py_in :: "string \<Rightarrow> string \<Rightarrow> bool" where
  "py_in sub [] = (sub = [])"
| "py_in sub (c # cs) = (startswith (c # cs) sub \<or> py_in sub cs)"

text \<open>
  \<open>content[i:j]\<close> for integers \<open>i\<close> and \<open>j\<close>: a negative bound counts from the
  end, and both bounds are clamped to the sequence.
\<close>

definition slice_bound :: "nat \<Rightarrow> int \<Rightarrow> nat" where
  "slice_bound n i = (if i < 0 then nat (max (i + int n) 0) else min (nat i) n)"

definition py_slice :: "'a list \<Rightarrow> int \<Rightarrow> int \<Rightarrow> 'a list" where
  "py_slice xs i j =
     (let lo = slice_bound (length xs) i; hi = slice_bound (length xs) j
      in take (hi - lo) (drop lo xs))"

section \<open>The listing parser\<close>

text \<open>The dictionary \<open>_ftp_list_to_files\<close> stores for one name.\<close>

record entry =
  is_dir :: bool
  size_bytes :: int
  permissions :: string
  mode :: nat
  nlink :: nat
  mtime :: int
  ctime :: int
  atime :: int

definition S_IFDIR :: nat where "S_IFDIR = 16384"
definition S_IFREG :: nat where "S_IFREG = 32768"

text \<open>
  A Python \<open>dict\<close> keeps its keys in the order of their first insertion, and a
  second assignment to a key replaces the value where it stands:
  \<open>AList.update\<close> on an association list.
\<close>

type_synonym files = "(string \<times> entry) list"

text \<open>
  The loop of \<open>_ftp_list_to_files\<close>, with the dictionary built so far. \<open>now\<close>
  is \<open>int(datetime.now().timestamp())\<close>. An exception leaves the loop.
\<close>

fun ftp_list_loop :: "int \<Rightarrow> string list \<Rightarrow> files \<Rightarrow> exc + files" where
  "ftp_list_loop now [] files = Inr files"
| "ftp_list_loop now (line # rest) files =
     (if py_strip line = [] then ftp_list_loop now rest files
      else
        let parts = py_split 8 line in
        if length parts < 9 then ftp_list_loop now rest files
        else
          let permissions = parts ! 0 in
          case (if isdigit (parts ! 4) then py_int (parts ! 4) else Inr 0) of
            Inl e \<Rightarrow> Inl e
          | Inr sz \<Rightarrow>
              let name = parts ! 8;
                  is_dir = startswith permissions ''d''
              in ftp_list_loop now rest
                   (AList.update name
                      \<lparr>is_dir = is_dir, size_bytes = sz, permissions = permissions,
                       mode = (if is_dir then S_IFDIR else S_IFREG),
                       nlink = (if is_dir then 2 else 1),
                       mtime = now, ctime = now, atime = now\<rparr>
                      files))"

definition ftp_list_to_files :: "int \<Rightarrow> string list \<Rightarrow> exc + files" where
  "ftp_list_to_files now ftp_listing = ftp_list_loop now ftp_listing []"

section \<open>The protocol client and the remote server\<close>

text \<open>
  The program reaches the server through \<open>ftplib.FTP\<close> of the Python
  library, which is no part of the repository: the client and the server are
  the environment, taken as parameters. The environment decides which call
  raises what (\<open>fault\<close>), what the server answers (\<open>lines_of\<close>, \<open>reply\<close>),
  which objects it stores (\<open>objects\<close>) and how the data connection hands a
  stream out in pieces (\<open>recv\<close>); every theorem quantifies over all of them.
\<close>

datatype ftp_call =
    Connect string nat
  | Login string string
  | Cwd string
  | Retrlines string
  | Sendcmd string
  | Retrbinary string
  | Storbinary string
  | Delete string
  | Quit

text \<open>The session object: its working directory, \<open>None\<close> until a \<open>CWD\<close>.\<close>

datatype FTP = FTP (wd: "string option")

text \<open>What a callback can be handed: a \<open>str\<close> or a \<open>bytes\<close> object.\<close>

datatype pyobj = PyStr string | PyBytes bytes

text \<open>
  The fields of \<open>FtpFuseOperations\<close> (\<open>_ftp_cache\<close> is never read or written),
  then the environment: the clock, \<open>strptime\<close> with the local time zone
  (\<open>None\<close> is its \<open>ValueError\<close>), the number of sessions that are open, and the
  calls made so far.
\<close>

record system =
  ftp_host :: string
  ftp_port :: nat
  ftp_user :: string
  ftp_pass :: string
  dir_cache :: "string \<rightharpoonup> string list"
  fault :: "ftp_call \<Rightarrow> exc option"
  lines_of :: "string option \<Rightarrow> string list"
  reply :: "string \<Rightarrow> string"
  objects :: "string \<rightharpoonup> bytes"
  recv :: "bytes \<Rightarrow> bytes list"
  strptime :: "string \<Rightarrow> int option"
  clock :: int
  sessions :: nat
  trace :: "ftp_call list"

text \<open>A computation: it returns a value or raises, and leaves a new state.\<close>

type_synonym 'a io = "system \<Rightarrow> (exc + 'a) \<times> system"

definition return_io :: "'a \<Rightarrow> 'a io" where
  "return_io x = (\<lambda>s. (Inr x, s))"

definition raise_io :: "exc \<Rightarrow> 'a io" where
  "raise_io e = (\<lambda>s. (Inl e, s))"

definition bind_io :: "'a io \<Rightarrow> ('a \<Rightarrow> 'b io) \<Rightarrow> 'b io" where
  "bind_io m f = (\<lambda>s. case m s of (Inl e, s') \<Rightarrow> (Inl e, s') | (Inr x, s') \<Rightarrow> f x s')"

text \<open>\<open>try: m except Exception as e: h e\<close>.\<close>

definition try_except :: "'a io \<Rightarrow> (exc \<Rightarrow> 'a io) \<Rightarrow> 'a io" where
  "try_except m h = (\<lambda>s. case m s of (Inl e, s') \<Rightarrow> h e s' | (Inr x, s') \<Rightarrow> (Inr x, s'))"

definition lift_io :: "exc + 'a \<Rightarrow> 'a io" where
  "lift_io r = (\<lambda>s. (r, s))"

text \<open>One call of the client: it is recorded, and raises if the environment says so.\<close>

definition call :: "ftp_call \<Rightarrow> unit io" where
  "call c =
     (\<lambda>s. let s' = s\<lparr>trace := trace s @ [c]\<rparr>
          in case fault s c of Some e \<Rightarrow> (Inl e, s') | None \<Rightarrow> (Inr (), s'))"

definition ftp_connect :: "string \<Rightarrow> nat \<Rightarrow> unit io" where
  "ftp_connect host port =
     bind_io (call (Connect host port))
       (\<lambda>_ s. (Inr (), s\<lparr>sessions := Suc (sessions s)\<rparr>))"

definition ftp_login :: "string \<Rightarrow> string \<Rightarrow> unit io" where
  "ftp_login user passwd = call (Login user passwd)"

definition ftp_cwd :: "FTP \<Rightarrow> string \<Rightarrow> FTP io" where
  "ftp_cwd ftp dirname = bind_io (call (Cwd dirname)) (\<lambda>_. return_io (FTP (Some dirname)))"

text \<open>\<open>ftp.retrlines(cmd, listing.append)\<close> with \<open>listing = []\<close>: the lines received.\<close>

definition ftp_retrlines :: "FTP \<Rightarrow> string \<Rightarrow> string list io" where
  "ftp_retrlines ftp cmd =
     bind_io (call (Retrlines cmd)) (\<lambda>_ s. (Inr (lines_of s (wd ftp)), s))"

definition ftp_sendcmd :: "FTP \<Rightarrow> string \<Rightarrow> string io" where
  "ftp_sendcmd ftp cmd = bind_io (call (Sendcmd cmd)) (\<lambda>_ s. (Inr (reply s cmd), s))"

text \<open>\<open>ftp.quit()\<close>: the session is closed once \<open>QUIT\<close> has been answered.\<close>

definition ftp_quit :: "FTP \<Rightarrow> unit io" where
  "ftp_quit ftp = bind_io (call Quit) (\<lambda>_ s. (Inr (), s\<lparr>sessions := sessions s - 1\<rparr>))"

text \<open>The callback is run on each piece in turn; what it raises ends the transfer.\<close>

fun feed :: "('b \<Rightarrow> pyobj \<Rightarrow> exc + 'b) \<Rightarrow> pyobj list \<Rightarrow> 'b \<Rightarrow> exc + 'b" where
  "feed callback [] acc = Inr acc"
| "feed callback (d # ds) acc =
     (case callback acc d of Inl e \<Rightarrow> Inl e | Inr acc' \<Rightarrow> feed callback ds acc')"

text \<open>
  \<open>ftp.retrbinary('RETR ' + path, callback)\<close>: a missing object is refused with
  550; otherwise every piece the connection receives goes to the callback as a
  \<open>bytes\<close> object. \<open>acc\<close> is the variable the callback closes over.
\<close>

definition ftp_retrbinary ::
  "FTP \<Rightarrow> string \<Rightarrow> ('b \<Rightarrow> pyobj \<Rightarrow> exc + 'b) \<Rightarrow> 'b \<Rightarrow> 'b io" where
  "ftp_retrbinary ftp path callback acc =
     bind_io (call (Retrbinary (''RETR '' @ path)))
       (\<lambda>_ s. case objects s path of
                None \<Rightarrow> (Inl (error_perm ''550 File not found''), s)
              | Some stored \<Rightarrow> (feed callback (map PyBytes (recv s stored)) acc, s))"

text \<open>\<open>ftp.storbinary('STOR ' + path, BytesIO(data))\<close>: the object becomes \<open>data\<close>.\<close>

definition ftp_storbinary :: "FTP \<Rightarrow> string \<Rightarrow> bytes \<Rightarrow> unit io" where
  "ftp_storbinary ftp path data =
     bind_io (call (Storbinary (''STOR '' @ path)))
       (\<lambda>_ s. (Inr (), s\<lparr>objects := (objects s)(path \<mapsto> data)\<rparr>))"

definition ftp_delete :: "FTP \<Rightarrow> string \<Rightarrow> unit io" where
  "ftp_delete ftp path =
     bind_io (call (Delete path))
       (\<lambda>_ s. case objects s path of
                None \<Rightarrow> (Inl (error_perm ''550 File not found''), s)
              | Some _ \<Rightarrow> (Inr (), s\<lparr>objects := (objects s)(path := None)\<rparr>))"

section \<open>FtpFuseOperations\<close>

definition get_ftp_connection :: "FTP io" where
  "get_ftp_connection =
     try_except
       (bind_io (\<lambda>s. ftp_connect (ftp_host s) (ftp_port s) s) (\<lambda>_.
        bind_io (\<lambda>s. ftp_login (ftp_user s) (ftp_pass s) s) (\<lambda>_.
        return_io (FTP None))))
       (\<lambda>e. raise_io (FuseOSError ECONNREFUSED))"

definition readdir :: "string \<Rightarrow> string list io" where
  "readdir path =
     try_except
       (\<lambda>s. case dir_cache s path of
               Some names \<Rightarrow> (Inr names, s)
             | None \<Rightarrow>
                 bind_io get_ftp_connection (\<lambda>ftp.
                 bind_io (if path \<noteq> ''/'' then ftp_cwd ftp path else return_io ftp) (\<lambda>ftp.
                 bind_io (ftp_retrlines ftp ''LIST'') (\<lambda>listing.
                 bind_io (ftp_quit ftp) (\<lambda>_.
                 bind_io (\<lambda>s. (ftp_list_to_files (clock s) listing, s)) (\<lambda>files.
                   let file_names = [''.'', ''..''] @ map fst files
                   in (\<lambda>s. (Inr file_names,
                            s\<lparr>dir_cache := (dir_cache s)(path \<mapsto> file_names)\<rparr>))))))) s)
       (\<lambda>e. case e of
               error_perm msg \<Rightarrow>
                 if py_in ''550'' msg then raise_io (FuseOSError ENOENT)
                 else if py_in ''530'' msg then raise_io (FuseOSError EACCES)
                 else raise_io (FuseOSError EIO)
             | _ \<Rightarrow> raise_io (FuseOSError EIO))"

record stat =
  st_mode :: nat
  st_nlink :: nat
  st_size :: int
  st_ctime :: int
  st_mtime :: int
  st_atime :: int

text \<open>\<open>xs[i]\<close> for an index that is not negative.\<close>

definition py_index :: "'a list \<Rightarrow> nat \<Rightarrow> exc + 'a" where
  "py_index xs i = (if i < length xs then Inr (xs ! i) else Inl IndexError)"

definition getattr :: "string \<Rightarrow> stat io" where
  "getattr path =
     try_except
       (if path = ''/'' then
          (\<lambda>s. (Inr \<lparr>st_mode = or S_IFDIR 493, st_nlink = 2, st_size = 0,
                     st_ctime = clock s, st_mtime = clock s, st_atime = clock s\<rparr>, s))
        else
          bind_io get_ftp_connection (\<lambda>ftp.
          bind_io
            (try_except
               (bind_io (ftp_sendcmd ftp (''SIZE '' @ path)) (\<lambda>size_resp.
                  if startswith size_resp ''213'' then
                    lift_io (case py_index (py_split_all size_resp) 1 of
                               Inl e \<Rightarrow> Inl e | Inr field \<Rightarrow> py_int field)
                  else return_io 0))
               (\<lambda>e. return_io 0)) (\<lambda>file_size.
          bind_io
            (try_except
               (bind_io (ftp_sendcmd ftp (''MDTM '' @ path)) (\<lambda>mdtm_resp.
                  if startswith mdtm_resp ''213'' then
                    (\<lambda>s. (case py_index (py_split_all mdtm_resp) 1 of
                              Inl e \<Rightarrow> Inl e
                            | Inr timestamp_str \<Rightarrow>
                                (case strptime s timestamp_str of
                                   None \<Rightarrow> Inl ValueError | Some t \<Rightarrow> Inr t), s))
                  else (\<lambda>s. (Inr (clock s), s))))
               (\<lambda>e s. (Inr (clock s), s))) (\<lambda>mtime.
          bind_io (ftp_quit ftp) (\<lambda>_.
          return_io \<lparr>st_mode = or S_IFREG 420, st_nlink = 1, st_size = file_size,
                     st_ctime = mtime, st_mtime = mtime, st_atime = mtime\<rparr>)))))
       (\<lambda>e. case e of
               error_perm msg \<Rightarrow>
                 if py_in ''550'' msg then raise_io (FuseOSError ENOENT)
                 else if py_in ''530'' msg then raise_io (FuseOSError EACCES)
                 else raise_io (FuseOSError EIO)
             | _ \<Rightarrow> raise_io (FuseOSError ENOENT))"

text \<open>\<open>data.encode('utf-8')\<close>: a \<open>bytes\<close> object has no such method.\<close>

definition utf8_char :: "char \<Rightarrow> bytes" where
  "utf8_char c =
     (let n = (of_char c :: nat)
      in if n < 128 then [of_nat n] else [of_nat (192 + n div 64), of_nat (128 + n mod 64)])"

definition encode_utf8 :: "pyobj \<Rightarrow> exc + bytes" where
  "encode_utf8 data =
     (case data of PyStr s \<Rightarrow> Inr (concat (map utf8_char s)) | PyBytes b \<Rightarrow> Inl AttributeError)"

text \<open>The callback of \<open>read\<close>: \<open>content.extend(data.encode('utf-8'))\<close>.\<close>

definition store_data :: "bytes \<Rightarrow> pyobj \<Rightarrow> exc + bytes" where
  "store_data content data =
     (case encode_utf8 data of Inl e \<Rightarrow> Inl e | Inr b \<Rightarrow> Inr (content @ b))"

definition read :: "string \<Rightarrow> int \<Rightarrow> int \<Rightarrow> bytes io" where
  "read path size' offset =
     try_except
       (bind_io get_ftp_connection (\<lambda>ftp.
        bind_io (ftp_retrbinary ftp path store_data []) (\<lambda>content.
        bind_io (ftp_quit ftp) (\<lambda>_.
        return_io (py_slice content offset (offset + size'))))))
       (\<lambda>e. case e of
               error_perm msg \<Rightarrow>
                 if py_in ''550'' msg then raise_io (FuseOSError ENOENT)
                 else raise_io (FuseOSError EIO)
             | _ \<Rightarrow> raise_io (FuseOSError EIO))"

text \<open>\<open>write\<close> (the name is a keyword of Isabelle, hence the suffix).\<close>

definition write_op :: "string \<Rightarrow> bytes \<Rightarrow> int \<Rightarrow> int io" where
  "write_op path data offset =
     try_except
       (bind_io get_ftp_connection (\<lambda>ftp.
        bind_io (ftp_storbinary ftp path data) (\<lambda>_.
        bind_io (ftp_quit ftp) (\<lambda>_.
        return_io (int (length data))))))
       (\<lambda>e. case e of
               error_perm msg \<Rightarrow>
                 if py_in ''550'' msg then raise_io (FuseOSError EACCES)
                 else raise_io (FuseOSError EIO)
             | _ \<Rightarrow> raise_io (FuseOSError EIO))"

definition truncate :: "string \<Rightarrow> int \<Rightarrow> unit io" where
  "truncate path length' = return_io ()"

definition unlink :: "string \<Rightarrow> unit io" where
  "unlink path =
     try_except
       (bind_io get_ftp_connection (\<lambda>ftp.
        bind_io (ftp_delete ftp path) (\<lambda>_.
        ftp_quit ftp)))
       (\<lambda>e. case e of
               error_perm msg \<Rightarrow>
                 if py_in ''550'' msg then raise_io (FuseOSError ENOENT)
                 else raise_io (FuseOSError EACCES)
             | _ \<Rightarrow> raise_io (FuseOSError EIO))"

section \<open>Concrete systems\<close>

text \<open>Both steps of \<open>_get_ftp_connection\<close> go through.\<close>

definition session_ok :: "system \<Rightarrow> bool" where
  "session_ok s =
     (fault s (Connect (ftp_host s) (ftp_port s)) = None \<and>
      fault s (Login (ftp_user s) (ftp_pass s)) = None)"

text \<open>A data connection that hands a stream that is not empty out in one piece.\<close>

definition one_piece :: "bytes \<Rightarrow> bytes list" where
  "one_piece b = (if b = [] then [] else [b])"

text \<open>
  \<open>FtpFuseOperations()\<close> with the defaults of \<open>__init__\<close>, in front of a
  server that stores nothing and refuses nothing.
\<close>

definition fresh_mount :: system where
  "fresh_mount =
     \<lparr>ftp_host = ''localhost'', ftp_port = 2121, ftp_user = ''root'',
      ftp_pass = ''fake.jwt.token'', dir_cache = Map.empty,
      fault = (\<lambda>_. None), lines_of = (\<lambda>_. []), reply = (\<lambda>_. []),
      objects = Map.empty, recv = one_piece, strptime = (\<lambda>_. None),
      clock = 0, sessions = 0, trace = []\<rparr>"

text \<open>The same system, where call \<open>c\<close> raises \<open>e\<close>, or where \<open>path\<close> holds \<open>stored\<close>.\<close>

definition refusing :: "ftp_call \<Rightarrow> exc \<Rightarrow> system \<Rightarrow> system" where
  "refusing c e s = s\<lparr>fault := (fault s)(c \<mapsto> e)\<rparr>"

definition serving :: "string \<Rightarrow> bytes \<Rightarrow> system \<Rightarrow> system" where
  "serving path stored s = s\<lparr>objects := (objects s)(path \<mapsto> stored)\<rparr>"

text \<open>\<open>b"hello"\<close>.\<close>

definition hello :: bytes where
  "hello = [104, 101, 108, 108, 111]"

section \<open>Notions used in the statements\<close>

text \<open>
  What one line of the listing does in the loop of \<open>_ftp_list_to_files\<close>:
  it is skipped (\<open>None\<close>), it assigns an entry to a name, or it raises.
\<close>

definition line_entry :: "int \<Rightarrow> string \<Rightarrow> exc + (string \<times> entry) option" where
  "line_entry now line =
     (if py_strip line = [] then Inr None
      else
        let parts = py_split 8 line in
        if length parts < 9 then Inr None
        else
          case (if isdigit (parts ! 4) then py_int (parts ! 4) else Inr 0) of
            Inl e \<Rightarrow> Inl e
          | Inr sz \<Rightarrow>
              Inr (Some (parts ! 8,
                \<lparr>is_dir = startswith (parts ! 0) ''d'', size_bytes = sz,
                 permissions = parts ! 0,
                 mode = (if startswith (parts ! 0) ''d'' then S_IFDIR else S_IFREG),
                 nlink = (if startswith (parts ! 0) ''d'' then 2 else 1),
                 mtime = now, ctime = now, atime = now\<rparr>)))"

text \<open>The assignments a listing makes, line by line.\<close>

definition entries_of :: "int \<Rightarrow> string list \<Rightarrow> (string \<times> entry) list" where
  "entries_of now lines =
     List.map_filter (\<lambda>line. case line_entry now line of Inr (Some kv) \<Rightarrow> Some kv | _ \<Rightarrow> None) lines"

text \<open>A list without the later occurrences of its elements.\<close>

fun first_seen :: "'a list \<Rightarrow> 'a list" where
  "first_seen [] = []"
| "first_seen (x # xs) = x # filter (\<lambda>y. y \<noteq> x) (first_seen xs)"

text \<open>The same system, where \<open>LIST\<close> is answered with the lines \<open>ls\<close>.\<close>

definition listing :: "string list \<Rightarrow> system \<Rightarrow> system" where
  "listing ls s = s\<lparr>lines_of := (\<lambda>_. ls)\<rparr>"

text \<open>Lines of listings, and a listing that names \<open>users\<close> twice.\<close>

definition users_line :: string where
  "users_line = ''drwxr-xr-x 2 root root 4096 Jan 01 00:00 users''"

definition superscript_line :: string where
  "superscript_line = ''-rw-r--r-- 1 root root '' @ [CHR 0xB2] @ '' Jan 01 00:00 f''"

definition notes_line :: string where
  "notes_line = ''-rw-r--r-- 1 root root 12 Jan 01 00:00 notes.txt''"

definition users_file_line :: string where
  "users_file_line = ''-rw-r--r-- 1 root root 7 Jan 02 00:00 users''"

definition old_line :: string where
  "old_line = ''-rw-r--r-- 1 root root 3 Jan 01 00:00 old.txt''"

definition new_line :: string where
  "new_line = ''-rw-r--r-- 1 root root 3 Jan 01 00:00 new.txt''"

definition junk_line :: string where
  "junk_line = ''total 3''"

definition sample_listing :: "string list" where
  "sample_listing = [users_line, junk_line, notes_line, users_file_line]"

text \<open>
  The translation as section 4.6 of the specification words it, one table for
  every operation; it is compared with what the operations do.
\<close>

definition claimed_errno :: "string \<Rightarrow> errno" where
  "claimed_errno msg =
     (if py_in ''550'' msg then ENOENT else if py_in ''530'' msg then EACCES else EIO)"

section \<open>Basic facts\<close>

lemmas io_defs = return_io_def raise_io_def bind_io_def try_except_def lift_io_def call_def Let_def

lemmas ftp_defs = ftp_connect_def ftp_login_def ftp_cwd_def ftp_retrlines_def
  ftp_sendcmd_def ftp_quit_def ftp_retrbinary_def ftp_storbinary_def ftp_delete_def

lemma get_ftp_connection_ok:
  "session_ok s \<Longrightarrow>
   get_ftp_connection s =
     (Inr (FTP None),
      s\<lparr>sessions := Suc (sessions s),
        trace := trace s @ [Connect (ftp_host s) (ftp_port s), Login (ftp_user s) (ftp_pass s)]\<rparr>)"
  by (simp add: session_ok_def get_ftp_connection_def io_defs ftp_defs)

lemma get_ftp_connection_refused:
  "\<not> session_ok s \<Longrightarrow> fst (get_ftp_connection s) = Inl (FuseOSError ECONNREFUSED)"
  by (auto simp add: session_ok_def get_ftp_connection_def io_defs ftp_defs split: option.splits)

lemma fault_refusing: "fault (refusing c e s) c = Some e"
  by (simp add: refusing_def)

lemma feed_store_data_bytes:
  "feed store_data (map PyBytes chunks) acc = (if chunks = [] then Inr acc else Inl AttributeError)"
  by (cases chunks) (simp_all add: store_data_def encode_utf8_def)

lemma py_slice_range:
  assumes "0 \<le> offset" "0 \<le> sz"
  shows "py_slice xs offset (offset + sz) = take (nat sz) (drop (nat offset) xs)"
  using assms by (auto simp add: py_slice_def slice_bound_def Let_def min_def nat_add_distrib)

lemma length_py_slice_range:
  assumes "0 \<le> offset" "0 \<le> sz"
  shows "int (length (py_slice xs offset (offset + sz))) = max 0 (min sz (int (length xs) - offset))"
  using assms by (auto simp add: py_slice_range)

section \<open>Writing\<close>

text \<open>
  C1. A write that succeeds leaves \<open>data\<close>, and nothing else, as the remote
  object at \<open>path\<close>, whatever was stored there before, and reports its length;
  \<open>offset\<close> plays no part: with any other offset the result and the system
  afterwards are the same.
\<close>

theorem write_replaces_object:
  assumes "fst (write_op path data offset s) = Inr n"
  shows "objects (snd (write_op path data offset s)) path = Some data
         \<and> n = int (length data)
         \<and> write_op path data offset' s = write_op path data offset s"
  using assms
  by (auto simp add: write_op_def get_ftp_connection_def io_defs ftp_defs
      split: option.splits exc.splits if_splits)

theorem write_replaces_object_witness:
  "fst (write_op ''/data/x'' hello 4 (serving ''/data/x'' [1, 2, 3, 4, 5, 6, 7, 8, 9] fresh_mount)) = Inr 5
   \<and> objects (snd (write_op ''/data/x'' hello 4
                      (serving ''/data/x'' [1, 2, 3, 4, 5, 6, 7, 8, 9] fresh_mount))) ''/data/x''
       = Some hello
   \<and> write_op ''/data/x'' hello 0 (serving ''/data/x'' [1, 2, 3, 4, 5, 6, 7, 8, 9] fresh_mount)
       = write_op ''/data/x'' hello 4 (serving ''/data/x'' [1, 2, 3, 4, 5, 6, 7, 8, 9] fresh_mount)"
proof -
  have h: "fst (write_op ''/data/x'' hello 4
                 (serving ''/data/x'' [1, 2, 3, 4, 5, 6, 7, 8, 9] fresh_mount)) = Inr 5"
    by (simp add: fresh_mount_def serving_def hello_def write_op_def get_ftp_connection_def
        io_defs ftp_defs)
  note t = write_replaces_object [OF h, of 0]
  show ?thesis
    by (rule conjI [OF h conjI [OF t [THEN conjunct1] t [THEN conjunct2, THEN conjunct2]]])
qed

text \<open>
  C2. Writing \<open>b"hello"\<close> to \<open>/data/x\<close> at offset 0 succeeds with 5, and the
  read of 5 bytes at offset 0 that follows raises \<open>FuseOSError(EIO)\<close>: the
  piece that \<open>RETR\<close> delivers is a \<open>bytes\<close> object, and the callback calls
  \<open>encode\<close> on it.
\<close>

theorem write_then_read_raises:
  "fst (write_op ''/data/x'' hello 0 fresh_mount) = Inr 5
   \<and> fst (read ''/data/x'' 5 0 (snd (write_op ''/data/x'' hello 0 fresh_mount)))
       = Inl (FuseOSError EIO)"
  by (simp add: fresh_mount_def hello_def one_piece_def write_op_def read_def
      get_ftp_connection_def io_defs ftp_defs store_data_def encode_utf8_def)

section \<open>Reading\<close>

text \<open>
  C3. The object at \<open>/data/x\<close> is \<open>b"hello"\<close>, so retrieval yields a buffer
  of length 5, and the range from offset 1 of size 3, clamped, is \<open>b"ell"\<close>,
  of length \<open>max 0 (min 3 (5 - 1)) = 3\<close>. \<open>read("/data/x", 3, 1)\<close> does not
  return it: the callback calls \<open>encode\<close> on the piece it is handed, a
  \<open>bytes\<close> object, and the read raises \<open>FuseOSError(EIO)\<close> before line 201
  takes the slice.
\<close>

theorem read_of_stored_object_raises:
  "objects (serving ''/data/x'' hello fresh_mount) ''/data/x'' = Some hello
   \<and> py_slice hello 1 (1 + 3) = [101, 108, 108]
   \<and> fst (read ''/data/x'' 3 1 (serving ''/data/x'' hello fresh_mount))
       = Inl (FuseOSError EIO)"
proof -
  have o: "objects (serving ''/data/x'' hello fresh_mount) ''/data/x'' = Some hello"
    by (simp add: serving_def)
  have "py_slice hello 1 (1 + 3) = take (nat 3) (drop (nat 1) hello)"
    by (rule py_slice_range) simp_all
  then have p: "py_slice hello 1 (1 + 3) = [101, 108, 108]"
    by (simp add: hello_def)
  have r: "fst (read ''/data/x'' 3 1 (serving ''/data/x'' hello fresh_mount))
             = Inl (FuseOSError EIO)"
    by (simp add: fresh_mount_def serving_def hello_def one_piece_def read_def
        get_ftp_connection_def io_defs ftp_defs store_data_def encode_utf8_def)
  show ?thesis
    by (intro conjI o p r)
qed

text \<open>
  C10. When the session is established and \<open>RETR\<close> hands at least one piece
  of the object to the callback, \<open>read\<close> raises \<open>FuseOSError(EIO)\<close>, for
  every size and offset; so a read that succeeds was handed no piece at all,
  and returns the empty byte sequence, for every size and offset.
\<close>

theorem read_fails_on_any_chunk:
  "(session_ok s \<and> fault s (Retrbinary (''RETR '' @ path)) = None
      \<and> objects s path = Some stored \<and> recv s stored \<noteq> []
     \<longrightarrow> fst (read path size' offset s) = Inl (FuseOSError EIO))
   \<and> (fst (read path size' offset s) = Inr r
     \<longrightarrow> (\<exists>stored. objects s path = Some stored \<and> recv s stored = []) \<and> r = [])"
  by (auto simp add: read_def session_ok_def get_ftp_connection_def io_defs ftp_defs
      py_slice_def feed_store_data_bytes
      split: option.splits exc.splits if_splits sum.splits)

theorem read_fails_on_any_chunk_witness:
  "session_ok (serving ''/data/x'' hello fresh_mount)
   \<and> recv (serving ''/data/x'' hello fresh_mount) hello = [hello]
   \<and> fst (read ''/data/x'' 5 0 (serving ''/data/x'' hello fresh_mount)) = Inl (FuseOSError EIO)
   \<and> fst (read ''/empty'' 5 0 (serving ''/empty'' [] fresh_mount)) = Inr []
   \<and> recv (serving ''/empty'' [] fresh_mount) [] = []"
proof -
  have ok: "session_ok (serving ''/data/x'' hello fresh_mount)"
    by (simp add: session_ok_def serving_def fresh_mount_def)
  have nf: "fault (serving ''/data/x'' hello fresh_mount) (Retrbinary (''RETR '' @ ''/data/x'')) = None"
    by (simp add: serving_def fresh_mount_def)
  have ob: "objects (serving ''/data/x'' hello fresh_mount) ''/data/x'' = Some hello"
    by (simp add: serving_def fresh_mount_def)
  have rc: "recv (serving ''/data/x'' hello fresh_mount) hello = [hello]"
    by (simp add: serving_def fresh_mount_def one_piece_def hello_def)
  have e: "fst (read ''/data/x'' 5 0 (serving ''/data/x'' hello fresh_mount)) = Inl (FuseOSError EIO)"
    using read_fails_on_any_chunk [of "serving ''/data/x'' hello fresh_mount" "''/data/x''" hello 5 0]
      ok nf ob rc by simp
  have r: "fst (read ''/empty'' 5 0 (serving ''/empty'' [] fresh_mount)) = Inr []"
    by (simp add: fresh_mount_def serving_def one_piece_def read_def get_ftp_connection_def
        io_defs ftp_defs py_slice_def slice_bound_def)
  have rc0: "recv (serving ''/empty'' [] fresh_mount) [] = []"
    by (simp add: serving_def fresh_mount_def one_piece_def)
  show ?thesis using ok rc e r rc0 by simp
qed

section \<open>Attributes\<close>

text \<open>
  C5. \<open>getattr("/")\<close> succeeds in every system with a directory record (mode
  \<open>S_IFDIR | 0o755\<close>, that is 16877, two links, size 0), and leaves the system
  as it was: no session is opened and no call is made.
\<close>

theorem getattr_root:
  "getattr ''/'' s =
     (Inr \<lparr>st_mode = 16877, st_nlink = 2, st_size = 0,
           st_ctime = clock s, st_mtime = clock s, st_atime = clock s\<rparr>, s)"
  by (simp add: getattr_def try_except_def S_IFDIR_def)

section \<open>Sessions\<close>

text \<open>
  C8. \<open>readdir("/missing")\<close>, where the server answers \<open>CWD\<close> with 550, raises
  \<open>FuseOSError(ENOENT)\<close> and returns with the session it has opened still
  open: \<open>QUIT\<close> is never sent.
\<close>

theorem readdir_leaves_session_open:
  "fst (readdir ''/missing''
         (refusing (Cwd ''/missing'') (error_perm ''550 No such directory'') fresh_mount))
     = Inl (FuseOSError ENOENT)
   \<and> sessions (snd (readdir ''/missing''
         (refusing (Cwd ''/missing'') (error_perm ''550 No such directory'') fresh_mount))) = 1
   \<and> trace (snd (readdir ''/missing''
         (refusing (Cwd ''/missing'') (error_perm ''550 No such directory'') fresh_mount)))
     = [Connect ''localhost'' 2121, Login ''root'' ''fake.jwt.token'', Cwd ''/missing'']"
  by (simp add: fresh_mount_def refusing_def readdir_def get_ftp_connection_def io_defs ftp_defs)

text \<open>
  C9. Where the connection is refused, \<open>_get_ftp_connection\<close> raises
  \<open>FuseOSError(ECONNREFUSED)\<close> inside the \<open>try\<close> of the operation, whose
  \<open>except Exception\<close> catches it: \<open>readdir\<close> raises \<open>FuseOSError(EIO)\<close> and
  \<open>getattr\<close> raises \<open>FuseOSError(ENOENT)\<close>.
\<close>

theorem connection_failure_is_not_refused:
  "fst (get_ftp_connection
         (refusing (Connect ''localhost'' 2121) (OtherError ''Connection refused'') fresh_mount))
     = Inl (FuseOSError ECONNREFUSED)
   \<and> fst (readdir ''/data''
         (refusing (Connect ''localhost'' 2121) (OtherError ''Connection refused'') fresh_mount))
     = Inl (FuseOSError EIO)
   \<and> fst (getattr ''/data''
         (refusing (Connect ''localhost'' 2121) (OtherError ''Connection refused'') fresh_mount))
     = Inl (FuseOSError ENOENT)"
  by (simp add: fresh_mount_def refusing_def readdir_def getattr_def get_ftp_connection_def
      io_defs ftp_defs)

section \<open>Error translation\<close>

lemma readdir_list_fault:
  assumes "session_ok s" "dir_cache s path = None" "path = ''/'' \<or> fault s (Cwd path) = None"
    "fault s (Retrlines ''LIST'') = Some e"
  shows "fst (readdir path s) =
           Inl (FuseOSError (case e of
                  error_perm msg \<Rightarrow>
                    if py_in ''550'' msg then ENOENT else if py_in ''530'' msg then EACCES else EIO
                | _ \<Rightarrow> EIO))"
  using assms
  by (auto simp add: readdir_def get_ftp_connection_ok io_defs ftp_defs split: exc.splits)

lemma readdir_cwd_fault:
  assumes "session_ok s" "dir_cache s path = None" "path \<noteq> ''/''" "fault s (Cwd path) = Some e"
  shows "fst (readdir path s) =
           Inl (FuseOSError (case e of
                  error_perm msg \<Rightarrow>
                    if py_in ''550'' msg then ENOENT else if py_in ''530'' msg then EACCES else EIO
                | _ \<Rightarrow> EIO))"
  using assms
  by (auto simp add: readdir_def get_ftp_connection_ok io_defs ftp_defs split: exc.splits)

lemma read_retr_fault:
  assumes "session_ok s" "fault s (Retrbinary (''RETR '' @ path)) = Some e"
  shows "fst (read path size' offset s) =
           Inl (FuseOSError (case e of
                  error_perm msg \<Rightarrow> if py_in ''550'' msg then ENOENT else EIO
                | _ \<Rightarrow> EIO))"
  using assms
  by (auto simp add: read_def get_ftp_connection_ok io_defs ftp_defs split: exc.splits)

lemma write_stor_fault:
  assumes "session_ok s" "fault s (Storbinary (''STOR '' @ path)) = Some e"
  shows "fst (write_op path data offset s) =
           Inl (FuseOSError (case e of
                  error_perm msg \<Rightarrow> if py_in ''550'' msg then EACCES else EIO
                | _ \<Rightarrow> EIO))"
  using assms
  by (auto simp add: write_op_def get_ftp_connection_ok io_defs ftp_defs split: exc.splits)

lemma unlink_dele_fault:
  assumes "session_ok s" "fault s (Delete path) = Some e"
  shows "fst (unlink path s) =
           Inl (FuseOSError (case e of
                  error_perm msg \<Rightarrow> if py_in ''550'' msg then ENOENT else EACCES
                | _ \<Rightarrow> EIO))"
  using assms
  by (auto simp add: unlink_def get_ftp_connection_ok io_defs ftp_defs split: exc.splits)

text \<open>The two probes of getattr: whatever SIZE and MDTM do, a value comes back.\<close>

lemma getattr_quit:
  assumes "session_ok s" "path \<noteq> ''/''"
  shows "fst (getattr path s) =
           (case fault s Quit of
              None \<Rightarrow> fst (getattr path s)
            | Some e \<Rightarrow> Inl (FuseOSError (case e of
                  error_perm msg \<Rightarrow>
                    if py_in ''550'' msg then ENOENT else if py_in ''530'' msg then EACCES else EIO
                | _ \<Rightarrow> ENOENT)))"
  using assms
  by (auto simp add: getattr_def get_ftp_connection_ok io_defs ftp_defs split: exc.splits option.splits sum.splits prod.splits)

lemma getattr_probes_absorbed:
  assumes "session_ok s" "path \<noteq> ''/''" "fault s Quit = None"
  shows "\<exists>st. fst (getattr path s) = Inr st
           \<and> (fault s (Sendcmd (''SIZE '' @ path)) \<noteq> None \<longrightarrow> st_size st = 0)
           \<and> (fault s (Sendcmd (''MDTM '' @ path)) \<noteq> None \<longrightarrow> st_mtime st = clock s)"
  using assms
  by (auto simp add: getattr_def get_ftp_connection_ok io_defs ftp_defs split: exc.splits option.splits sum.splits prod.splits)


text \<open>
  C4, as amended. With the session established, each operation translates the
  failure of its own command by its own table. \<open>readdir\<close> (\<open>CWD\<close>, \<open>LIST\<close>):
  an \<open>error_perm\<close> whose text holds 550 is ENOENT, else one whose text holds
  530 is EACCES, any other failure is EIO. \<open>read\<close> (\<open>RETR\<close>): 550 is ENOENT,
  any other failure, 530 included, is EIO. \<open>write\<close> (\<open>STOR\<close>): 550 is EACCES,
  any other failure is EIO. \<open>unlink\<close> (\<open>DELE\<close>): 550 is ENOENT, any other
  \<open>error_perm\<close> is EACCES, any other failure is EIO. \<open>getattr\<close>: a failure of
  \<open>SIZE\<close> or \<open>MDTM\<close> is absorbed (size 0, time now) and the call succeeds; a
  failure of \<open>QUIT\<close> is translated as in \<open>readdir\<close>, except that a failure
  that is no \<open>error_perm\<close> is ENOENT.
\<close>

theorem error_translation_by_operation:
  assumes "session_ok s"
  shows "(dir_cache s path = None \<and> (path = ''/'' \<or> fault s (Cwd path) = None)
            \<and> fault s (Retrlines ''LIST'') = Some e
          \<longrightarrow> fst (readdir path s) =
                Inl (FuseOSError (case e of
                       error_perm msg \<Rightarrow>
                         if py_in ''550'' msg then ENOENT
                         else if py_in ''530'' msg then EACCES else EIO
                     | _ \<Rightarrow> EIO)))
       \<and> (dir_cache s path = None \<and> path \<noteq> ''/'' \<and> fault s (Cwd path) = Some e
          \<longrightarrow> fst (readdir path s) =
                Inl (FuseOSError (case e of
                       error_perm msg \<Rightarrow>
                         if py_in ''550'' msg then ENOENT
                         else if py_in ''530'' msg then EACCES else EIO
                     | _ \<Rightarrow> EIO)))
       \<and> (fault s (Retrbinary (''RETR '' @ path)) = Some e
          \<longrightarrow> fst (read path size' offset s) =
                Inl (FuseOSError (case e of
                       error_perm msg \<Rightarrow> if py_in ''550'' msg then ENOENT else EIO
                     | _ \<Rightarrow> EIO)))
       \<and> (fault s (Storbinary (''STOR '' @ path)) = Some e
          \<longrightarrow> fst (write_op path data offset s) =
                Inl (FuseOSError (case e of
                       error_perm msg \<Rightarrow> if py_in ''550'' msg then EACCES else EIO
                     | _ \<Rightarrow> EIO)))
       \<and> (fault s (Delete path) = Some e
          \<longrightarrow> fst (unlink path s) =
                Inl (FuseOSError (case e of
                       error_perm msg \<Rightarrow> if py_in ''550'' msg then ENOENT else EACCES
                     | _ \<Rightarrow> EIO)))
       \<and> (path \<noteq> ''/'' \<and> fault s Quit = Some e
          \<longrightarrow> fst (getattr path s) =
                Inl (FuseOSError (case e of
                       error_perm msg \<Rightarrow>
                         if py_in ''550'' msg then ENOENT
                         else if py_in ''530'' msg then EACCES else EIO
                     | _ \<Rightarrow> ENOENT)))
       \<and> (path \<noteq> ''/'' \<and> fault s Quit = None
          \<longrightarrow> (\<exists>st. fst (getattr path s) = Inr st
                 \<and> (fault s (Sendcmd (''SIZE '' @ path)) \<noteq> None \<longrightarrow> st_size st = 0)
                 \<and> (fault s (Sendcmd (''MDTM '' @ path)) \<noteq> None \<longrightarrow> st_mtime st = clock s)))"
proof (intro conjI impI)
  assume "dir_cache s path = None \<and> (path = ''/'' \<or> fault s (Cwd path) = None)
            \<and> fault s (Retrlines ''LIST'') = Some e"
  then show "fst (readdir path s) =
                Inl (FuseOSError (case e of
                       error_perm msg \<Rightarrow>
                         if py_in ''550'' msg then ENOENT
                         else if py_in ''530'' msg then EACCES else EIO
                     | _ \<Rightarrow> EIO))"
    using assms by (simp add: readdir_list_fault)
next
  assume "dir_cache s path = None \<and> path \<noteq> ''/'' \<and> fault s (Cwd path) = Some e"
  then show "fst (readdir path s) =
                Inl (FuseOSError (case e of
                       error_perm msg \<Rightarrow>
                         if py_in ''550'' msg then ENOENT
                         else if py_in ''530'' msg then EACCES else EIO
                     | _ \<Rightarrow> EIO))"
    using assms by (simp add: readdir_cwd_fault)
next
  assume "fault s (Retrbinary (''RETR '' @ path)) = Some e"
  then show "fst (read path size' offset s) =
                Inl (FuseOSError (case e of
                       error_perm msg \<Rightarrow> if py_in ''550'' msg then ENOENT else EIO
                     | _ \<Rightarrow> EIO))"
    using assms by (simp add: read_retr_fault)
next
  assume "fault s (Storbinary (''STOR '' @ path)) = Some e"
  then show "fst (write_op path data offset s) =
                Inl (FuseOSError (case e of
                       error_perm msg \<Rightarrow> if py_in ''550'' msg then EACCES else EIO
                     | _ \<Rightarrow> EIO))"
    using assms by (simp add: write_stor_fault)
next
  assume "fault s (Delete path) = Some e"
  then show "fst (unlink path s) =
                Inl (FuseOSError (case e of
                       error_perm msg \<Rightarrow> if py_in ''550'' msg then ENOENT else EACCES
                     | _ \<Rightarrow> EIO))"
    using assms by (simp add: unlink_dele_fault)
next
  assume "path \<noteq> ''/'' \<and> fault s Quit = Some e"
  then show "fst (getattr path s) =
                Inl (FuseOSError (case e of
                       error_perm msg \<Rightarrow>
                         if py_in ''550'' msg then ENOENT
                         else if py_in ''530'' msg then EACCES else EIO
                     | _ \<Rightarrow> ENOENT))"
    using assms getattr_quit [of s path] by simp
next
  assume "path \<noteq> ''/'' \<and> fault s Quit = None"
  then show "\<exists>st. fst (getattr path s) = Inr st
                 \<and> (fault s (Sendcmd (''SIZE '' @ path)) \<noteq> None \<longrightarrow> st_size st = 0)
                 \<and> (fault s (Sendcmd (''MDTM '' @ path)) \<noteq> None \<longrightarrow> st_mtime st = clock s)"
    using assms getattr_probes_absorbed [of s path] by simp
qed

theorem error_translation_by_operation_witness:
  "fst (readdir ''/'' (refusing (Retrlines ''LIST'') (error_perm ''530 Not logged in'') fresh_mount))
     = Inl (FuseOSError EACCES)
   \<and> fst (readdir ''/nope'' (refusing (Cwd ''/nope'') (error_perm ''550 No such directory'') fresh_mount))
     = Inl (FuseOSError ENOENT)
   \<and> fst (read ''/data/x'' 5 0 (refusing (Retrbinary ''RETR /data/x'') (error_perm ''530 Not logged in'') fresh_mount))
     = Inl (FuseOSError EIO)
   \<and> fst (write_op ''/data/x'' hello 0 (refusing (Storbinary ''STOR /data/x'') (error_perm ''550 Permission denied'') fresh_mount))
     = Inl (FuseOSError EACCES)
   \<and> fst (unlink ''/data/x'' (refusing (Delete ''/data/x'') (error_perm ''553 Not allowed'') fresh_mount))
     = Inl (FuseOSError EACCES)
   \<and> fst (getattr ''/data/x'' (refusing Quit (OtherError ''timed out'') fresh_mount))
     = Inl (FuseOSError ENOENT)
   \<and> (\<exists>st. fst (getattr ''/data/x'' (refusing (Sendcmd ''SIZE /data/x'') (error_perm ''550 No such file'') fresh_mount))
           = Inr st \<and> st_size st = 0)"
proof -
  have ok: "session_ok (refusing c e fresh_mount)"
    if "c \<noteq> Connect ''localhost'' 2121" "c \<noteq> Login ''root'' ''fake.jwt.token''" for c e
    using that by (simp add: session_ok_def refusing_def fresh_mount_def)
  have nc: "dir_cache (refusing c e fresh_mount) p = None" for c e p
    by (simp add: refusing_def fresh_mount_def)
  have a1: "fst (readdir ''/'' (refusing (Retrlines ''LIST'') (error_perm ''530 Not logged in'') fresh_mount))
     = Inl (FuseOSError EACCES)"
    using error_translation_by_operation
      [where s = "refusing (Retrlines ''LIST'') (error_perm ''530 Not logged in'') fresh_mount"
         and path = "''/''" and e = "error_perm ''530 Not logged in''", THEN conjunct1]
    by (simp add: ok nc fault_refusing)
  have a2: "fst (readdir ''/nope'' (refusing (Cwd ''/nope'') (error_perm ''550 No such directory'') fresh_mount))
     = Inl (FuseOSError ENOENT)"
    using error_translation_by_operation
      [where s = "refusing (Cwd ''/nope'') (error_perm ''550 No such directory'') fresh_mount"
         and path = "''/nope''" and e = "error_perm ''550 No such directory''",
       THEN conjunct2, THEN conjunct1]
    by (simp add: ok nc fault_refusing)
  have a3: "fst (read ''/data/x'' 5 0 (refusing (Retrbinary ''RETR /data/x'') (error_perm ''530 Not logged in'') fresh_mount))
     = Inl (FuseOSError EIO)"
    using error_translation_by_operation
      [where s = "refusing (Retrbinary ''RETR /data/x'') (error_perm ''530 Not logged in'') fresh_mount"
         and path = "''/data/x''" and e = "error_perm ''530 Not logged in''" and size' = 5 and offset = 0,
       THEN conjunct2, THEN conjunct2, THEN conjunct1]
    by (simp add: ok nc fault_refusing)
  have a4: "fst (write_op ''/data/x'' hello 0 (refusing (Storbinary ''STOR /data/x'') (error_perm ''550 Permission denied'') fresh_mount))
     = Inl (FuseOSError EACCES)"
    using error_translation_by_operation
      [where s = "refusing (Storbinary ''STOR /data/x'') (error_perm ''550 Permission denied'') fresh_mount"
         and path = "''/data/x''" and e = "error_perm ''550 Permission denied''" and data = hello and offset = 0,
       THEN conjunct2, THEN conjunct2, THEN conjunct2, THEN conjunct1]
    by (simp add: ok nc fault_refusing)
  have a5: "fst (unlink ''/data/x'' (refusing (Delete ''/data/x'') (error_perm ''553 Not allowed'') fresh_mount))
     = Inl (FuseOSError EACCES)"
    using error_translation_by_operation
      [where s = "refusing (Delete ''/data/x'') (error_perm ''553 Not allowed'') fresh_mount"
         and path = "''/data/x''" and e = "error_perm ''553 Not allowed''",
       THEN conjunct2, THEN conjunct2, THEN conjunct2, THEN conjunct2, THEN conjunct1]
    by (simp add: ok nc fault_refusing)
  have a6: "fst (getattr ''/data/x'' (refusing Quit (OtherError ''timed out'') fresh_mount))
     = Inl (FuseOSError ENOENT)"
    using error_translation_by_operation
      [where s = "refusing Quit (OtherError ''timed out'') fresh_mount"
         and path = "''/data/x''" and e = "OtherError ''timed out''",
       THEN conjunct2, THEN conjunct2, THEN conjunct2, THEN conjunct2, THEN conjunct2, THEN conjunct1]
    by (simp add: ok nc fault_refusing)
  have ok7: "session_ok (refusing (Sendcmd ''SIZE /data/x'') (error_perm ''550 No such file'') fresh_mount)"
    by (simp add: ok)
  have q7: "fault (refusing (Sendcmd ''SIZE /data/x'') (error_perm ''550 No such file'') fresh_mount) Quit = None"
    by (simp add: refusing_def fresh_mount_def)
  have f7: "fault (refusing (Sendcmd ''SIZE /data/x'') (error_perm ''550 No such file'') fresh_mount)
              (Sendcmd (''SIZE '' @ ''/data/x'')) \<noteq> None"
    by (simp add: refusing_def)
  have a7: "\<exists>st. fst (getattr ''/data/x'' (refusing (Sendcmd ''SIZE /data/x'') (error_perm ''550 No such file'') fresh_mount))
           = Inr st \<and> st_size st = 0"
    using error_translation_by_operation
      [OF ok7, where path = "''/data/x''",
       THEN conjunct2, THEN conjunct2, THEN conjunct2, THEN conjunct2, THEN conjunct2, THEN conjunct2]
      q7 f7
    by auto
  show ?thesis
    by (intro conjI a1 a2 a3 a4 a5 a6 a7)
qed

text \<open>
  C4, as stated, fails for \<open>write\<close>: a 550 answer to \<open>STOR\<close> is translated to
  EACCES, where the one table of the claim gives ENOENT.
\<close>

theorem write_550_is_not_not_found:
  "py_in ''550'' ''550 Permission denied''
   \<and> claimed_errno ''550 Permission denied'' = ENOENT
   \<and> fst (write_op ''/data/x'' hello 0
           (refusing (Storbinary ''STOR /data/x'') (error_perm ''550 Permission denied'') fresh_mount))
       = Inl (FuseOSError EACCES)
   \<and> fst (write_op ''/data/x'' hello 0
           (refusing (Storbinary ''STOR /data/x'') (error_perm ''550 Permission denied'') fresh_mount))
       \<noteq> Inl (FuseOSError (claimed_errno ''550 Permission denied''))"
  by (simp add: claimed_errno_def fresh_mount_def refusing_def hello_def write_op_def
      get_ftp_connection_def io_defs ftp_defs)


section \<open>The listing parser and readdir\<close>

lemma ftp_list_loop_Cons:
  "ftp_list_loop now (line # rest) files =
     (case line_entry now line of
        Inl e \<Rightarrow> Inl e
      | Inr None \<Rightarrow> ftp_list_loop now rest files
      | Inr (Some kv) \<Rightarrow> ftp_list_loop now rest (AList.update (fst kv) (snd kv) files))"
  by (simp add: line_entry_def Let_def split: sum.splits)

lemma entries_of_Nil: "entries_of now [] = []"
  by (simp add: entries_of_def map_filter_simps)

lemma entries_of_Cons:
  "entries_of now (line # rest) =
     (case line_entry now line of
        Inr (Some kv) \<Rightarrow> kv # entries_of now rest
      | _ \<Rightarrow> entries_of now rest)"
  by (simp add: entries_of_def map_filter_simps split: sum.splits option.splits)

lemma ftp_list_loop_fold:
  "ftp_list_loop now lines files = Inr fs \<Longrightarrow>
   fs = fold (\<lambda>kv. AList.update (fst kv) (snd kv)) (entries_of now lines) files"
proof (induction lines arbitrary: files)
  case Nil
  then show ?case by (simp add: entries_of_Nil)
next
  case (Cons line rest)
  then show ?case
    by (auto simp add: ftp_list_loop_Cons entries_of_Cons simp del: ftp_list_loop.simps
        split: sum.splits option.splits)
qed

lemma ftp_list_loop_raises:
  "(\<exists>e. ftp_list_loop now lines files = Inl e) \<longleftrightarrow> (\<exists>line \<in> set lines. isl (line_entry now line))"
proof (induction lines arbitrary: files)
  case Nil
  then show ?case by simp
next
  case (Cons line rest)
  then show ?case
    by (auto simp add: ftp_list_loop_Cons simp del: ftp_list_loop.simps
        split: sum.splits option.splits)
qed

lemma set_first_seen: "set (first_seen xs) = set xs"
  by (induction xs) auto

lemma distinct_first_seen: "distinct (first_seen xs)"
  by (induction xs) (auto simp add: set_first_seen)

lemma keys_fold_update:
  "map fst (fold (\<lambda>kv. AList.update (fst kv) (snd kv)) kvs al) =
     map fst al @ filter (\<lambda>k. k \<notin> set (map fst al)) (first_seen (map fst kvs))"
proof (induction kvs arbitrary: al)
  case Nil
  then show ?case by simp
next
  case (Cons kv kvs)
  show ?case
  proof (cases "fst kv \<in> set (map fst al)")
    case True
    then have "filter (\<lambda>k. k \<notin> set (map fst al)) (filter (\<lambda>y. y \<noteq> fst kv) (first_seen (map fst kvs)))
                 = filter (\<lambda>k. k \<notin> set (map fst al)) (first_seen (map fst kvs))"
      by (auto intro: filter_cong)
    with True show ?thesis
      by (simp add: Cons.IH update_keys)
  next
    case False
    have "filter (\<lambda>k. k \<notin> set (map fst al) \<and> k \<noteq> fst kv) (first_seen (map fst kvs))
            = filter (\<lambda>k. k \<notin> set (map fst al)) (filter (\<lambda>y. y \<noteq> fst kv) (first_seen (map fst kvs)))"
      by (auto intro: filter_cong)
    with False show ?thesis
      by (simp add: Cons.IH update_keys)
  qed
qed

lemma map_of_fold_update:
  "map_of (fold (\<lambda>kv. AList.update (fst kv) (snd kv)) kvs al) = map_of al ++ map_of (rev kvs)"
proof (induction kvs arbitrary: al)
  case Nil
  then show ?case by simp
next
  case (Cons kv kvs)
  show ?case
    by (auto simp add: Cons.IH update_conv' fun_eq_iff map_add_def split: option.splits)
qed

lemma ftp_list_to_files_keys:
  assumes "ftp_list_to_files now lines = Inr files"
  shows "map fst files = first_seen (map fst (entries_of now lines))"
    and "distinct (map fst files)"
    and "map_of files = map_of (rev (entries_of now lines))"
proof -
  have f: "files = fold (\<lambda>kv. AList.update (fst kv) (snd kv)) (entries_of now lines) []"
    using assms by (simp add: ftp_list_to_files_def ftp_list_loop_fold)
  show k: "map fst files = first_seen (map fst (entries_of now lines))"
    by (simp add: f keys_fold_update)
  show "distinct (map fst files)"
    by (simp only: k distinct_first_seen)
  show "map_of files = map_of (rev (entries_of now lines))"
    by (simp add: f map_of_fold_update)
qed

lemma readdir_cached:
  "dir_cache s path = Some cached \<Longrightarrow> readdir path s = (Inr cached, s)"
  by (simp add: readdir_def try_except_def)

lemma readdir_no_session:
  assumes "\<not> session_ok s" "dir_cache s path = None"
  shows "fst (readdir path s) = Inl (FuseOSError EIO)"
proof -
  obtain s' where "get_ftp_connection s = (Inl (FuseOSError ECONNREFUSED), s')"
    using get_ftp_connection_refused [OF assms(1)] by (cases "get_ftp_connection s") auto
  then show ?thesis
    using assms(2) by (simp add: readdir_def bind_io_def try_except_def raise_io_def)
qed

lemma readdir_quit_fault:
  assumes "session_ok s" "dir_cache s path = None" "path = ''/'' \<or> fault s (Cwd path) = None"
    "fault s (Retrlines ''LIST'') = None" "fault s Quit = Some e"
  shows "isl (fst (readdir path s))"
  using assms
  by (auto simp add: readdir_def get_ftp_connection_ok io_defs ftp_defs split: exc.splits)

lemma readdir_parse_raises:
  assumes "session_ok s" "dir_cache s path = None" "path = ''/'' \<or> fault s (Cwd path) = None"
    "fault s (Retrlines ''LIST'') = None" "fault s Quit = None"
    "ftp_list_to_files (clock s) (lines_of s (if path = ''/'' then None else Some path)) = Inl e"
  shows "isl (fst (readdir path s))"
  using assms
  by (auto simp add: readdir_def get_ftp_connection_ok io_defs ftp_defs split: exc.splits)

lemma readdir_parse_returns:
  assumes "session_ok s" "dir_cache s path = None" "path = ''/'' \<or> fault s (Cwd path) = None"
    "fault s (Retrlines ''LIST'') = None" "fault s Quit = None"
    "ftp_list_to_files (clock s) (lines_of s (if path = ''/'' then None else Some path)) = Inr files"
  shows "fst (readdir path s) = Inr ([''.'', ''..''] @ map fst files)"
    and "dir_cache (snd (readdir path s)) path = Some ([''.'', ''..''] @ map fst files)"
  using assms
  by (auto simp add: readdir_def get_ftp_connection_ok io_defs ftp_defs)

lemma readdir_uncached:
  assumes c: "dir_cache s path = None" and r: "fst (readdir path s) = Inr names"
  shows "\<exists>files. ftp_list_to_files (clock s) (lines_of s (if path = ''/'' then None else Some path)) = Inr files
           \<and> names = [''.'', ''..''] @ map fst files
           \<and> dir_cache (snd (readdir path s)) path = Some names"
proof -
  have ok: "session_ok s"
    using readdir_no_session [OF _ c] r by auto
  have cwd: "path = ''/'' \<or> fault s (Cwd path) = None"
    using readdir_cwd_fault [OF ok c] r by (cases "fault s (Cwd path)") auto
  have lst: "fault s (Retrlines ''LIST'') = None"
    using readdir_list_fault [OF ok c cwd] r by (cases "fault s (Retrlines ''LIST'')") auto
  have quit: "fault s Quit = None"
    using readdir_quit_fault [OF ok c cwd lst] r by (cases "fault s Quit") auto
  show ?thesis
  proof (cases "ftp_list_to_files (clock s) (lines_of s (if path = ''/'' then None else Some path))")
    case (Inl e)
    then show ?thesis
      using readdir_parse_raises [OF ok c cwd lst quit] r by auto
  next
    case (Inr files)
    then show ?thesis
      using readdir_parse_returns [OF ok c cwd lst quit Inr] r by auto
  qed
qed

text \<open>
  C7, as amended. A path that is in the cache gets the names stored for it,
  whatever the server lists now. For a path that is not, a \<open>readdir\<close> that
  succeeds returns \<open>.\<close> and \<open>..\<close> followed by the names the lines of the
  listing assign, each once, in the order of their first occurrence; the
  dictionary holds for each name the entry of the last line that assigns
  it; and the names are stored in the cache for the path.
\<close>

theorem readdir_names:
  "(dir_cache s path = Some cached \<longrightarrow> readdir path s = (Inr cached, s))
   \<and> (dir_cache s path = None \<and> fst (readdir path s) = Inr names \<longrightarrow>
       (\<exists>files.
          ftp_list_to_files (clock s) (lines_of s (if path = ''/'' then None else Some path)) = Inr files
          \<and> names = [''.'', ''..''] @ map fst files
          \<and> map fst files
              = first_seen (map fst (entries_of (clock s)
                                      (lines_of s (if path = ''/'' then None else Some path))))
          \<and> distinct (map fst files)
          \<and> map_of files
              = map_of (rev (entries_of (clock s)
                               (lines_of s (if path = ''/'' then None else Some path))))
          \<and> dir_cache (snd (readdir path s)) path = Some names))"
proof (intro conjI impI)
  assume "dir_cache s path = Some cached"
  then show "readdir path s = (Inr cached, s)" by (rule readdir_cached)
next
  assume a: "dir_cache s path = None \<and> fst (readdir path s) = Inr names"
  then obtain files where
    f: "ftp_list_to_files (clock s) (lines_of s (if path = ''/'' then None else Some path)) = Inr files"
    and n: "names = [''.'', ''..''] @ map fst files"
    and c: "dir_cache (snd (readdir path s)) path = Some names"
    using readdir_uncached [of s path names] by blast
  show "\<exists>files.
          ftp_list_to_files (clock s) (lines_of s (if path = ''/'' then None else Some path)) = Inr files
          \<and> names = [''.'', ''..''] @ map fst files
          \<and> map fst files
              = first_seen (map fst (entries_of (clock s)
                                      (lines_of s (if path = ''/'' then None else Some path))))
          \<and> distinct (map fst files)
          \<and> map_of files
              = map_of (rev (entries_of (clock s)
                               (lines_of s (if path = ''/'' then None else Some path))))
          \<and> dir_cache (snd (readdir path s)) path = Some names"
    using f n c ftp_list_to_files_keys [OF f] by blast
qed


section \<open>Listings evaluated\<close>

lemma split_users_line:
  "py_split 8 users_line =
     [''drwxr-xr-x'', ''2'', ''root'', ''root'', ''4096'', ''Jan'', ''01'', ''00:00'', ''users'']"
  by code_simp

lemma strip_users_line: "py_strip users_line \<noteq> []"
  by code_simp

lemma entry_users_line:
  "line_entry now users_line =
     Inr (Some (''users'', \<lparr>is_dir = True, size_bytes = 4096, permissions = ''drwxr-xr-x'',
                        mode = 16384, nlink = 2, mtime = now, ctime = now, atime = now\<rparr>))"
proof -
  have d: "isdigit ''4096''" by code_simp
  have i: "py_int ''4096'' = Inr 4096" by code_simp
  show ?thesis
    by (simp add: line_entry_def split_users_line strip_users_line d i S_IFDIR_def)
qed

lemma split_superscript_line:
  "py_split 8 superscript_line =
     [''-rw-r--r--'', ''1'', ''root'', ''root'', [CHR 0xB2], ''Jan'', ''01'', ''00:00'', ''f'']"
  by code_simp

lemma strip_superscript_line: "py_strip superscript_line \<noteq> []"
  by code_simp

lemma entry_superscript_line: "line_entry now superscript_line = Inl ValueError"
proof -
  have d: "isdigit [CHR 0xB2]" by code_simp
  have i: "py_int [CHR 0xB2] = Inl ValueError" by code_simp
  show ?thesis
    by (simp add: line_entry_def split_superscript_line strip_superscript_line d i)
qed

lemma parse_superscript:
  "ftp_list_to_files now [superscript_line, users_line] = Inl ValueError"
  by (simp add: ftp_list_to_files_def ftp_list_loop_Cons entry_superscript_line
      del: ftp_list_loop.simps(2))

lemma parse_users:
  "ftp_list_to_files now [users_line] =
     Inr [(''users'', \<lparr>is_dir = True, size_bytes = 4096, permissions = ''drwxr-xr-x'',
                        mode = 16384, nlink = 2, mtime = now, ctime = now, atime = now\<rparr>)]"
  by (simp add: ftp_list_to_files_def ftp_list_loop_Cons entry_users_line
      del: ftp_list_loop.simps(2))


lemma readdir_parse_raises_errno:
  assumes "session_ok s" "dir_cache s path = None" "path = ''/'' \<or> fault s (Cwd path) = None"
    "fault s (Retrlines ''LIST'') = None" "fault s Quit = None"
    "ftp_list_to_files (clock s) (lines_of s (if path = ''/'' then None else Some path)) = Inl ValueError"
  shows "fst (readdir path s) = Inl (FuseOSError EIO)"
  using assms
  by (auto simp add: readdir_def get_ftp_connection_ok io_defs ftp_defs)

lemma listing_fields:
  "session_ok (listing ls s) = session_ok s"
  "dir_cache (listing ls s) = dir_cache s"
  "fault (listing ls s) = fault s"
  "clock (listing ls s) = clock s"
  "lines_of (listing ls s) d = ls"
  by (simp_all add: listing_def session_ok_def)

lemma fresh_mount_fields:
  "session_ok fresh_mount"
  "dir_cache fresh_mount p = None"
  "fault fresh_mount c = None"
  "clock fresh_mount = 0"
  by (simp_all add: fresh_mount_def session_ok_def)

lemma split_old_line:
  "py_split 8 old_line =
     [''-rw-r--r--'', ''1'', ''root'', ''root'', ''3'', ''Jan'', ''01'', ''00:00'', ''old.txt'']"
  by code_simp

lemma strip_old_line: "py_strip old_line \<noteq> []"
  by code_simp

lemma split_new_line:
  "py_split 8 new_line =
     [''-rw-r--r--'', ''1'', ''root'', ''root'', ''3'', ''Jan'', ''01'', ''00:00'', ''new.txt'']"
  by code_simp

lemma strip_new_line: "py_strip new_line \<noteq> []"
  by code_simp

lemma size_three: "isdigit ''3''" "py_int ''3'' = Inr 3"
  by code_simp+

lemma entry_old_line:
  "line_entry now old_line =
     Inr (Some (''old.txt'', \<lparr>is_dir = False, size_bytes = 3, permissions = ''-rw-r--r--'',
                        mode = 32768, nlink = 1, mtime = now, ctime = now, atime = now\<rparr>))"
  by (simp add: line_entry_def split_old_line strip_old_line size_three S_IFREG_def)

lemma entry_new_line:
  "line_entry now new_line =
     Inr (Some (''new.txt'', \<lparr>is_dir = False, size_bytes = 3, permissions = ''-rw-r--r--'',
                        mode = 32768, nlink = 1, mtime = now, ctime = now, atime = now\<rparr>))"
  by (simp add: line_entry_def split_new_line strip_new_line size_three S_IFREG_def)

lemma entry_junk_line: "line_entry now junk_line = Inr None"
proof -
  have s: "py_split 8 junk_line = [''total'', ''3'']" by code_simp
  show ?thesis by (simp add: line_entry_def s)
qed

lemma split_notes_line:
  "py_split 8 notes_line =
     [''-rw-r--r--'', ''1'', ''root'', ''root'', ''12'', ''Jan'', ''01'', ''00:00'', ''notes.txt'']"
  by code_simp

lemma strip_notes_line: "py_strip notes_line \<noteq> []"
  by code_simp

lemma entry_notes_line:
  "line_entry now notes_line =
     Inr (Some (''notes.txt'', \<lparr>is_dir = False, size_bytes = 12, permissions = ''-rw-r--r--'',
                        mode = 32768, nlink = 1, mtime = now, ctime = now, atime = now\<rparr>))"
proof -
  have d: "isdigit ''12''" by code_simp
  have i: "py_int ''12'' = Inr 12" by code_simp
  show ?thesis
    by (simp add: line_entry_def split_notes_line strip_notes_line d i S_IFREG_def)
qed

lemma split_users_file_line:
  "py_split 8 users_file_line =
     [''-rw-r--r--'', ''1'', ''root'', ''root'', ''7'', ''Jan'', ''02'', ''00:00'', ''users'']"
  by code_simp

lemma strip_users_file_line: "py_strip users_file_line \<noteq> []"
  by code_simp

lemma entry_users_file_line:
  "line_entry now users_file_line =
     Inr (Some (''users'', \<lparr>is_dir = False, size_bytes = 7, permissions = ''-rw-r--r--'',
                        mode = 32768, nlink = 1, mtime = now, ctime = now, atime = now\<rparr>))"
proof -
  have d: "isdigit ''7''" by code_simp
  have i: "py_int ''7'' = Inr 7" by code_simp
  show ?thesis
    by (simp add: line_entry_def split_users_file_line strip_users_file_line d i S_IFREG_def)
qed

lemma parse_sample_listing:
  "ftp_list_to_files now sample_listing =
     Inr [(''users'', \<lparr>is_dir = False, size_bytes = 7, permissions = ''-rw-r--r--'',
                        mode = 32768, nlink = 1, mtime = now, ctime = now, atime = now\<rparr>),
          (''notes.txt'', \<lparr>is_dir = False, size_bytes = 12, permissions = ''-rw-r--r--'',
                        mode = 32768, nlink = 1, mtime = now, ctime = now, atime = now\<rparr>)]"
  by (simp add: sample_listing_def ftp_list_to_files_def ftp_list_loop_Cons entry_users_line
      entry_junk_line entry_notes_line entry_users_file_line del: ftp_list_loop.simps(2))

text \<open>
  C7, witnessed by a listing whose first and last lines both name \<open>users\<close>:
  the name is returned once, in the place of its first occurrence, with the
  entry of the last line, and the second \<open>readdir\<close> answers from the cache.
\<close>

theorem readdir_names_witness:
  "fst (readdir ''/data'' (listing sample_listing fresh_mount))
     = Inr [''.'', ''..'', ''users'', ''notes.txt'']
   \<and> (\<exists>files. ftp_list_to_files 0 sample_listing = Inr files
         \<and> map fst files = [''users'', ''notes.txt'']
         \<and> map_of files ''users''
             = Some \<lparr>is_dir = False, size_bytes = 7, permissions = ''-rw-r--r--'',
                     mode = 32768, nlink = 1, mtime = 0, ctime = 0, atime = 0\<rparr>)
   \<and> readdir ''/data'' (snd (readdir ''/data'' (listing sample_listing fresh_mount)))
       = (Inr [''.'', ''..'', ''users'', ''notes.txt''],
          snd (readdir ''/data'' (listing sample_listing fresh_mount)))"
proof -
  let ?s = "listing sample_listing fresh_mount"
  let ?names = "[''.'', ''..'', ''users'', ''notes.txt'']"
  have c: "dir_cache ?s ''/data'' = None"
    by (simp add: listing_fields fresh_mount_fields)
  have p: "ftp_list_to_files (clock ?s) (lines_of ?s (if ''/data'' = ''/'' then None else Some ''/data''))
             = ftp_list_to_files 0 sample_listing"
    by (simp add: listing_fields fresh_mount_fields)
  have r: "fst (readdir ''/data'' ?s) = Inr ?names"
    using readdir_parse_returns(1) [OF _ c _ _ _ p [unfolded parse_sample_listing]]
    by (simp add: listing_fields fresh_mount_fields)
  have e: "entries_of 0 sample_listing =
             [(''users'', \<lparr>is_dir = True, size_bytes = 4096, permissions = ''drwxr-xr-x'',
                        mode = 16384, nlink = 2, mtime = 0, ctime = 0, atime = 0\<rparr>),
              (''notes.txt'', \<lparr>is_dir = False, size_bytes = 12, permissions = ''-rw-r--r--'',
                        mode = 32768, nlink = 1, mtime = 0, ctime = 0, atime = 0\<rparr>),
              (''users'', \<lparr>is_dir = False, size_bytes = 7, permissions = ''-rw-r--r--'',
                        mode = 32768, nlink = 1, mtime = 0, ctime = 0, atime = 0\<rparr>)]"
    by (simp add: sample_listing_def entries_of_Cons entries_of_Nil entry_users_line
        entry_junk_line entry_notes_line entry_users_file_line)
  have l: "lines_of ?s (if ''/data'' = ''/'' then None else Some ''/data'') = sample_listing"
    by (simp add: listing_fields)
  have k0: "clock ?s = 0"
    by (simp add: listing_fields fresh_mount_fields)
  have "\<exists>files.
          ftp_list_to_files 0 sample_listing = Inr files
          \<and> ?names = [''.'', ''..''] @ map fst files
          \<and> map fst files = first_seen (map fst (entries_of 0 sample_listing))
          \<and> distinct (map fst files)
          \<and> map_of files = map_of (rev (entries_of 0 sample_listing))
          \<and> dir_cache (snd (readdir ''/data'' ?s)) ''/data'' = Some ?names"
    using readdir_names [of ?s "''/data''" _ ?names, THEN conjunct2, THEN mp, OF conjI [OF c r]]
    unfolding l k0 .
  then obtain files where
    f: "ftp_list_to_files 0 sample_listing = Inr files"
    and k: "map fst files = first_seen (map fst (entries_of 0 sample_listing))"
    and m: "map_of files = map_of (rev (entries_of 0 sample_listing))"
    and d: "dir_cache (snd (readdir ''/data'' ?s)) ''/data'' = Some ?names"
    by blast
  have k': "map fst files = [''users'', ''notes.txt'']"
    by (simp add: k e)
  have m': "map_of files ''users''
             = Some \<lparr>is_dir = False, size_bytes = 7, permissions = ''-rw-r--r--'',
                     mode = 32768, nlink = 1, mtime = 0, ctime = 0, atime = 0\<rparr>"
    by (simp add: m e)
  have again: "readdir ''/data'' (snd (readdir ''/data'' ?s)) = (Inr ?names, snd (readdir ''/data'' ?s))"
    by (rule readdir_names [of "snd (readdir ''/data'' ?s)" "''/data''" ?names, THEN conjunct1, THEN mp, OF d])
  show ?thesis
    by (intro conjI exI [of _ files] r f k' m' again)
qed


text \<open>
  C7, as stated, fails for a path in the cache: after a first \<open>readdir\<close> of
  \<open>/data\<close>, the server lists \<open>new.txt\<close> instead of \<open>old.txt\<close>, and the
  second \<open>readdir\<close> still returns \<open>old.txt\<close> and not \<open>new.txt\<close>.
\<close>

theorem readdir_cached_is_stale:
  "fst (readdir ''/data''
         (listing [new_line] (snd (readdir ''/data'' (listing [old_line] fresh_mount)))))
     = Inr [''.'', ''..'', ''old.txt'']
   \<and> map fst (entries_of 0
         (lines_of (listing [new_line] (snd (readdir ''/data'' (listing [old_line] fresh_mount))))
            (Some ''/data'')))
     = [''new.txt'']"
proof -
  have p: "ftp_list_to_files (clock (listing [old_line] fresh_mount))
             (lines_of (listing [old_line] fresh_mount) (if ''/data'' = ''/'' then None else Some ''/data''))
           = Inr [(''old.txt'', \<lparr>is_dir = False, size_bytes = 3, permissions = ''-rw-r--r--'',
                        mode = 32768, nlink = 1, mtime = 0, ctime = 0, atime = 0\<rparr>)]"
    by (simp add: listing_fields fresh_mount_fields ftp_list_to_files_def ftp_list_loop_Cons
        entry_old_line del: ftp_list_loop.simps(2))
  have c: "dir_cache (snd (readdir ''/data'' (listing [old_line] fresh_mount))) ''/data''
             = Some [''.'', ''..'', ''old.txt'']"
    using readdir_parse_returns(2) [OF _ _ _ _ _ p]
    by (simp add: listing_fields fresh_mount_fields)
  have r: "fst (readdir ''/data''
         (listing [new_line] (snd (readdir ''/data'' (listing [old_line] fresh_mount)))))
     = Inr [''.'', ''..'', ''old.txt'']"
    by (simp add: readdir_cached [where cached = "[''.'', ''..'', ''old.txt'']"] listing_fields c)
  have e: "map fst (entries_of 0 [new_line]) = [''new.txt'']"
    by (simp add: entries_of_Cons entries_of_Nil entry_new_line)
  show ?thesis
    using r e by (simp add: listing_fields)
qed


text \<open>
  C6. A line of nine fields whose size field is the superscript two: the field
  passes \<open>isdigit\<close>, \<open>int\<close> raises \<open>ValueError\<close>, and the parse of the
  whole listing is abandoned, the well-formed line after it included;
  \<open>readdir\<close> then raises \<open>FuseOSError(EIO)\<close>.
\<close>

theorem superscript_size_aborts_parse:
  "isdigit [CHR 0xB2]
   \<and> py_int [CHR 0xB2] = Inl ValueError
   \<and> length (py_split 8 superscript_line) = 9
   \<and> ftp_list_to_files 0 [superscript_line, users_line] = Inl ValueError
   \<and> fst (readdir ''/'' (listing [superscript_line, users_line] fresh_mount)) = Inl (FuseOSError EIO)"
proof -
  have d: "isdigit [CHR 0xB2]" by code_simp
  have i: "py_int [CHR 0xB2] = Inl ValueError" by code_simp
  have l: "length (py_split 8 superscript_line) = 9"
    by (simp add: split_superscript_line)
  have r: "fst (readdir ''/'' (listing [superscript_line, users_line] fresh_mount)) = Inl (FuseOSError EIO)"
    by (rule readdir_parse_raises_errno)
       (simp_all add: listing_fields fresh_mount_fields parse_superscript)
  show ?thesis
    using d i l r parse_superscript [of 0] by simp
qed


section \<open>Further facts about the parser and the sessions\<close>

lemma py_strip_Nil_iff: "py_strip s = [] \<longleftrightarrow> dropWhile isspace s = []"
proof
  assume a: "py_strip s = []"
  show "dropWhile isspace s = []"
  proof (rule ccontr)
    assume n: "dropWhile isspace s \<noteq> []"
    then have "\<not> isspace (hd (dropWhile isspace s))"
      by (rule hd_dropWhile)
    moreover have "hd (dropWhile isspace s) \<in> set (rev (dropWhile isspace s))"
      using n by simp
    moreover have "\<forall>x \<in> set (rev (dropWhile isspace s)). isspace x"
      using a unfolding py_strip_def by (simp add: dropWhile_eq_Nil_conv)
    ultimately show False by blast
  qed
next
  assume "dropWhile isspace s = []"
  then show "py_strip s = []" by (simp add: py_strip_def del: dropWhile_eq_Nil_conv)
qed

lemma py_split_blank: "dropWhile isspace s = [] \<Longrightarrow> py_split n s = []"
  by (cases n) (simp_all del: dropWhile_eq_Nil_conv)

lemma py_split_parts_not_Nil: "p \<in> set (py_split n s) \<Longrightarrow> p \<noteq> []"
proof (induction n arbitrary: s)
  case 0
  then show ?case by (auto simp add: Let_def simp del: dropWhile_eq_Nil_conv split: if_splits)
next
  case (Suc n)
  show ?case
  proof (cases "dropWhile isspace s = []")
    case True
    with Suc.prems show ?thesis by (simp del: dropWhile_eq_Nil_conv)
  next
    case False
    then have "\<not> isspace (hd (dropWhile isspace s))" by (rule hd_dropWhile)
    with False have "takeWhile (\<lambda>c. \<not> isspace c) (dropWhile isspace s) \<noteq> []"
      by (cases "dropWhile isspace s") auto
    with Suc.prems Suc.IH False show ?thesis
      by (auto simp add: Let_def simp del: dropWhile_eq_Nil_conv)
  qed
qed

lemma length_py_split: "length (py_split n s) \<le> Suc n"
  by (induction n arbitrary: s) (auto simp add: Let_def)

lemma digit_groups_decimal:
  "s \<noteq> [] \<Longrightarrow> list_all isdecimal_char s \<Longrightarrow> digit_groups s = Some s"
proof (induction s rule: digit_groups.induct)
  case 1
  then show ?case by simp
next
  case (2 c)
  then show ?case by simp
next
  case (3 c d s)
  then have "d \<noteq> CHR ''_''"
    by (auto simp add: isdecimal_char_def)
  with 3 show ?case by simp
qed

lemma py_int_decimal:
  assumes "s \<noteq> []" "list_all isdecimal_char s"
  shows "py_int s = Inr (decimal_val s)"
proof -
  obtain c r where s: "s = c # r" using assms(1) by (cases s) auto
  with assms(2) have "isdecimal_char c" by simp
  then have "c \<noteq> CHR ''-''" "c \<noteq> CHR ''+''"
    by (auto simp add: isdecimal_char_def)
  then show ?thesis
    using digit_groups_decimal [OF assms] by (simp add: py_int_def s)
qed

lemma startswith_d: "startswith p ''d'' \<longleftrightarrow> p \<noteq> [] \<and> hd p = CHR ''d''"
  by (cases p) auto

lemma ftp_list_loop_append:
  "ftp_list_loop now (xs @ ys) files =
     (case ftp_list_loop now xs files of Inl e \<Rightarrow> Inl e | Inr f \<Rightarrow> ftp_list_loop now ys f)"
proof (induction xs arbitrary: files)
  case Nil
  then show ?case by simp
next
  case (Cons x xs)
  then show ?case
    by (simp add: ftp_list_loop_Cons del: ftp_list_loop.simps(2) split: sum.splits option.splits)
qed

lemma line_entry_short: "length (py_split 8 line) < 9 \<Longrightarrow> line_entry now line = Inr None"
  by (simp add: line_entry_def)

text \<open>
  A line of fewer than nine fields leaves the parse as if it were not there.
\<close>

lemma short_line_skipped:
  assumes "length (py_split 8 line) < 9"
  shows "ftp_list_to_files now (before @ line # after) = ftp_list_to_files now (before @ after)"
  using assms
  by (simp add: ftp_list_to_files_def ftp_list_loop_append ftp_list_loop_Cons line_entry_short
      del: ftp_list_loop.simps(2) split: sum.splits)

text \<open>
  A line of nine fields whose size field is no digit string, or one of decimal
  digits only, assigns to its last field an entry that is a directory exactly
  when the first field starts with \<open>d\<close>, with the value of the size field, or
  0, as its size.
\<close>

lemma well_formed_line_entry:
  assumes "9 \<le> length (py_split 8 line)"
    and "\<not> isdigit (py_split 8 line ! 4) \<or> list_all isdecimal_char (py_split 8 line ! 4)"
  shows "\<exists>e. line_entry now line = Inr (Some (py_split 8 line ! 8, e))
           \<and> is_dir e = (hd (py_split 8 line ! 0) = CHR ''d'')
           \<and> size_bytes e
               = (if isdigit (py_split 8 line ! 4) then decimal_val (py_split 8 line ! 4) else 0)
           \<and> ftp_list_loop now (line # rest) files
               = ftp_list_loop now rest (AList.update (py_split 8 line ! 8) e files)"
proof -
  let ?parts = "py_split 8 line"
  have ne: "py_strip line \<noteq> []"
  proof
    assume "py_strip line = []"
    then have "?parts = []"
      by (simp add: py_strip_Nil_iff py_split_blank del: dropWhile_eq_Nil_conv)
    with assms(1) show False by simp
  qed
  have "?parts ! 0 \<in> set ?parts"
    using assms(1) by (intro nth_mem) auto
  then have p0: "?parts ! 0 \<noteq> []"
    by (rule py_split_parts_not_Nil)
  have d: "startswith (?parts ! 0) ''d'' = (hd (?parts ! 0) = CHR ''d'')"
    using p0 by (simp add: startswith_d)
  have sz: "(if isdigit (?parts ! 4) then py_int (?parts ! 4) else Inr 0)
              = Inr (if isdigit (?parts ! 4) then decimal_val (?parts ! 4) else 0)"
  proof (cases "isdigit (?parts ! 4)")
    case True
    with assms(2) have "list_all isdecimal_char (?parts ! 4)" by simp
    moreover from True have "?parts ! 4 \<noteq> []" by (simp add: isdigit_def)
    ultimately show ?thesis using True by (simp add: py_int_decimal)
  next
    case False
    then show ?thesis by simp
  qed
  have e: "line_entry now line =
             Inr (Some (?parts ! 8,
               \<lparr>is_dir = startswith (?parts ! 0) ''d'',
                size_bytes = (if isdigit (?parts ! 4) then decimal_val (?parts ! 4) else 0),
                permissions = ?parts ! 0,
                mode = (if startswith (?parts ! 0) ''d'' then S_IFDIR else S_IFREG),
                nlink = (if startswith (?parts ! 0) ''d'' then 2 else 1),
                mtime = now, ctime = now, atime = now\<rparr>))"
    using assms(1) ne by (simp add: line_entry_def Let_def sz)
  show ?thesis
    by (rule exI [of _ "\<lparr>is_dir = startswith (?parts ! 0) ''d'',
                size_bytes = (if isdigit (?parts ! 4) then decimal_val (?parts ! 4) else 0),
                permissions = ?parts ! 0,
                mode = (if startswith (?parts ! 0) ''d'' then S_IFDIR else S_IFREG),
                nlink = (if startswith (?parts ! 0) ''d'' then 2 else 1),
                mtime = now, ctime = now, atime = now\<rparr>"])
       (simp add: e d ftp_list_loop_Cons del: ftp_list_loop.simps(2))
qed

text \<open>\<open>truncate\<close> returns and changes nothing.\<close>

lemma truncate_does_nothing: "truncate path length' s = (Inr (), s)"
  by (simp add: truncate_def return_io_def)

text \<open>
  Without a session every operation raises the error of its generic handler;
  with one, an operation that returns has closed it, and one that raises has
  left it open.
\<close>

lemma no_session_outcomes:
  assumes "\<not> session_ok s"
  shows "fst (read path size' offset s) = Inl (FuseOSError EIO)"
    and "fst (write_op path data offset s) = Inl (FuseOSError EIO)"
    and "fst (unlink path s) = Inl (FuseOSError EIO)"
    and "path \<noteq> ''/'' \<Longrightarrow> fst (getattr path s) = Inl (FuseOSError ENOENT)"
proof -
  obtain s' where g: "get_ftp_connection s = (Inl (FuseOSError ECONNREFUSED), s')"
    using get_ftp_connection_refused [OF assms] by (cases "get_ftp_connection s") auto
  show "fst (read path size' offset s) = Inl (FuseOSError EIO)"
    by (simp add: read_def bind_io_def try_except_def raise_io_def g)
  show "fst (write_op path data offset s) = Inl (FuseOSError EIO)"
    by (simp add: write_op_def bind_io_def try_except_def raise_io_def g)
  show "fst (unlink path s) = Inl (FuseOSError EIO)"
    by (simp add: unlink_def bind_io_def try_except_def raise_io_def g)
  show "fst (getattr path s) = Inl (FuseOSError ENOENT)" if "path \<noteq> ''/''"
    using that by (simp add: getattr_def bind_io_def try_except_def raise_io_def g)
qed

lemma sessions_after_write:
  "fst (write_op path data offset s) = Inr n \<Longrightarrow>
   sessions (snd (write_op path data offset s)) = sessions s"
  "session_ok s \<Longrightarrow> isl (fst (write_op path data offset s)) \<Longrightarrow>
   sessions (snd (write_op path data offset s)) = Suc (sessions s)"
  by (auto simp add: write_op_def session_ok_def get_ftp_connection_def io_defs ftp_defs
      split: option.splits exc.splits if_splits)

lemma sessions_after_unlink:
  "fst (unlink path s) = Inr u \<Longrightarrow> sessions (snd (unlink path s)) = sessions s"
  "session_ok s \<Longrightarrow> isl (fst (unlink path s)) \<Longrightarrow>
   sessions (snd (unlink path s)) = Suc (sessions s)"
  by (auto simp add: unlink_def session_ok_def get_ftp_connection_def io_defs ftp_defs
      split: option.splits exc.splits if_splits)

lemma sessions_after_read:
  "fst (read path size' offset s) = Inr r \<Longrightarrow>
   sessions (snd (read path size' offset s)) = sessions s"
  "session_ok s \<Longrightarrow> isl (fst (read path size' offset s)) \<Longrightarrow>
   sessions (snd (read path size' offset s)) = Suc (sessions s)"
  by (auto simp add: read_def session_ok_def get_ftp_connection_def io_defs ftp_defs
      feed_store_data_bytes split: option.splits exc.splits if_splits)

end
